theory Spec2Isabelle
  imports Main "HOL-Library.Sublist" "HOL-Library.AList"
begin

section \<open>Python values and strings\<close>

text \<open>
  The post-processing code of \<^verbatim>\<open>core/postprocessing.py\<close> works on Python dictionaries
  whose values are strings, numbers, booleans, \<^verbatim>\<open>None\<close> or nested dictionaries. A
  dictionary keeps its keys in insertion order, so it is an association list with distinct
  keys; \<^verbatim>\<open>d[k] = v\<close> is \<^const>\<open>AList.update\<close> (an existing key keeps its place, a new
  key goes to the end) and \<^verbatim>\<open>d.get(k)\<close> is \<^const>\<open>map_of\<close>.
\<close>

datatype pyval =
    PNone
  | PBool bool
  | PInt int
  | PStr string
  | PList "pyval list"
  | PDict "(string \<times> pyval) list"

type_synonym dict = "(string \<times> pyval) list"

text \<open>Python's truth value of an object, as \<^verbatim>\<open>if x:\<close> and \<^verbatim>\<open>x or y\<close> test it.\<close>

fun truthy :: "pyval \<Rightarrow> bool" where
  "truthy PNone = False"
| "truthy (PBool b) = b"
| "truthy (PInt i) = (i \<noteq> 0)"
| "truthy (PStr s) = (s \<noteq> [])"
| "truthy (PList xs) = (xs \<noteq> [])"
| "truthy (PDict d) = (d \<noteq> [])"

text \<open>\<^verbatim>\<open>d.get(k)\<close>: the value, or \<^verbatim>\<open>None\<close> for a missing key.\<close>

definition dget :: "dict \<Rightarrow> string \<Rightarrow> pyval" where
  "dget d k = (case map_of d k of Some v \<Rightarrow> v | None \<Rightarrow> PNone)"

text \<open>\<^verbatim>\<open>d.update(e)\<close>: every item of \<open>e\<close> is stored into \<open>d\<close>, in the order of \<open>e\<close>.\<close>

definition dupdate :: "dict \<Rightarrow> dict \<Rightarrow> dict" where
  "dupdate d e = fold (\<lambda>(k, v) acc. AList.update k v acc) e d"

text \<open>The exceptions the modelled code can raise.\<close>

datatype error = KeyError string | TypeError | AttributeError

text \<open>\<^verbatim>\<open>d[k]\<close> raises \<^verbatim>\<open>KeyError\<close> for a missing key.\<close>

definition dindex :: "dict \<Rightarrow> string \<Rightarrow> error + pyval" where
  "dindex d k = (case map_of d k of Some v \<Rightarrow> Inr v | None \<Rightarrow> Inl (KeyError k))"

text \<open>Sequencing of computations that may raise.\<close>

definition bindE :: "error + 'a \<Rightarrow> ('a \<Rightarrow> error + 'b) \<Rightarrow> error + 'b" where
  "bindE m f = (case m of Inl e \<Rightarrow> Inl e | Inr v \<Rightarrow> f v)"

subsection \<open>String search and replacement\<close>

text \<open>
  \<^verbatim>\<open>s.startswith(p)\<close> is \<^term>\<open>prefix p s\<close>. \<^verbatim>\<open>old in s\<close> asks whether \<open>old\<close> occurs
  anywhere in \<open>s\<close>.
\<close>

fun str_in :: "string \<Rightarrow> string \<Rightarrow> bool" where
  "str_in old [] = (old = [])"
| "str_in old (c # cs) = (prefix old (c # cs) \<or> str_in old cs)"

text \<open>
  \<^verbatim>\<open>s.replace(old, new)\<close> replaces every occurrence of \<open>old\<close>, scanning from the left
  and continuing after each replaced occurrence. For an empty \<open>old\<close> Python puts \<open>new\<close>
  before every character and at the end.
\<close>

function replace_scan :: "string \<Rightarrow> string \<Rightarrow> string \<Rightarrow> string" where
  "replace_scan old new [] = []"
| "replace_scan old new (c # cs) =
     (if old \<noteq> [] \<and> prefix old (c # cs)
      then new @ replace_scan old new (drop (length old - 1) cs)
      else c # replace_scan old new cs)"
  by pat_completeness auto
termination
  by (relation "measure (\<lambda>(old, new, s). length s)") auto

definition str_replace :: "string \<Rightarrow> string \<Rightarrow> string \<Rightarrow> string" where
  "str_replace s old new =
     (if old = [] then new @ concat (map (\<lambda>c. c # new) s) else replace_scan old new s)"

section \<open>Configuration\<close>

text \<open>
  The options of \<^verbatim>\<open>core.CONFIG\<close> the code reads: \<^verbatim>\<open>Server.apikey\<close>,
  \<^verbatim>\<open>Search.autograb\<close> and the \<^verbatim>\<open>Postprocessing\<close> section. \<^verbatim>\<open>RemoteMapping\<close> is a
  dictionary from remote to local prefixes, in the order of its keys.
\<close>

record config =
  apikey :: string
  autograb :: bool
  renamerenabled :: bool
  renamerstring :: string
  replacespaces :: bool
  replaceillegal :: string
  moverenabled :: bool
  movermethod :: string
  cleanupenabled :: bool
  cleanupfailed :: bool
  RemoteMapping :: "(string \<times> string) list"

section \<open>Remote path mapping\<close>

text \<open>
  \<^verbatim>\<open>max(matches, key=len)\<close>: the first element of greatest length; a later element
  replaces the running best only when it is strictly longer.
\<close>

fun max_by_len :: "string \<Rightarrow> string list \<Rightarrow> string" where
  "max_by_len best [] = best"
| "max_by_len best (m # ms) = max_by_len (if length best < length m then m else best) ms"

definition map_remote :: "config \<Rightarrow> string \<Rightarrow> string" where
  "map_remote cfg path =
     (let maps = RemoteMapping cfg;
          matches = filter (\<lambda>remote. prefix remote path) (map fst maps)
      in case matches of
           [] \<Rightarrow> path
         | m # ms \<Rightarrow>
             (let match = max_by_len m ms
              in case map_of maps match of
                   Some local \<Rightarrow> str_replace path match local
                 | None \<Rightarrow> path))"


section \<open>Path functions of the platform\<close>

text \<open>
  The code calls \<^verbatim>\<open>os.path.splitdrive\<close>, \<^verbatim>\<open>split\<close>, \<^verbatim>\<open>splitext\<close> and \<^verbatim>\<open>join\<close>, which
  Python binds to \<^verbatim>\<open>posixpath\<close> or \<^verbatim>\<open>ntpath\<close> by platform. They are a parameter of the
  model; \<open>posixpath\<close> below is the POSIX instance and \<open>nt_splitdrive\<close> the drive rule of
  Windows (\<open>ntpath_drive\<close> is the instance that differs from POSIX in that rule only).
\<close>

record os_path =
  os_splitdrive :: "string \<Rightarrow> string \<times> string"
  os_split :: "string \<Rightarrow> string \<times> string"
  os_splitext :: "string \<Rightarrow> string \<times> string"
  os_join :: "string \<Rightarrow> string \<Rightarrow> string"

definition rstrip :: "char \<Rightarrow> string \<Rightarrow> string" where
  "rstrip c s = rev (dropWhile (\<lambda>x. x = c) (rev s))"

text \<open>The part of \<open>p\<close> after its last \<open>/\<close> (all of \<open>p\<close> when it has none).\<close>

definition posix_basename :: "string \<Rightarrow> string" where
  "posix_basename p = rev (takeWhile (\<lambda>x. x \<noteq> CHR ''/'') (rev p))"

definition posix_split :: "string \<Rightarrow> string \<times> string" where
  "posix_split p =
     (let tail = posix_basename p;
          head = take (length p - length tail) p
      in (if head \<noteq> [] \<and> head \<noteq> replicate (length head) CHR ''/''
          then rstrip CHR ''/'' head else head, tail))"

definition posix_splitext :: "string \<Rightarrow> string \<times> string" where
  "posix_splitext p =
     (let base = posix_basename p;
          ext = rev (takeWhile (\<lambda>x. x \<noteq> CHR ''.'') (rev base));
          stem = take (length base - length ext - 1) base
      in if CHR ''.'' \<in> set base \<and> list_ex (\<lambda>c. c \<noteq> CHR ''.'') stem
         then (take (length p - length ext - 1) p, CHR ''.'' # ext)
         else (p, []))"

definition posix_join :: "string \<Rightarrow> string \<Rightarrow> string" where
  "posix_join a b =
     (if prefix ''/'' b then b
      else if a = [] \<or> last a = CHR ''/'' then a @ b
      else a @ ''/'' @ b)"

definition posixpath :: os_path where
  "posixpath = \<lparr>os_splitdrive = (\<lambda>p. ([], p)), os_split = posix_split,
     os_splitext = posix_splitext, os_join = posix_join\<rparr>"




section \<open>Sanitizer\<close>

text \<open>
  \<^verbatim>\<open>re.sub(r'["*?<>|]+', repl, string)\<close>: every maximal run of the listed characters is
  replaced by one copy of \<open>repl\<close> (taken literally, as \<^verbatim>\<open>re.sub\<close> does for a replacement
  without backslashes).
\<close>

definition illegal :: "char \<Rightarrow> bool" where
  "illegal c = (c \<in> set ''\"*?<>|'')"

function re_sub_illegal :: "string \<Rightarrow> string \<Rightarrow> string" where
  "re_sub_illegal repl [] = []"
| "re_sub_illegal repl (c # cs) =
     (if illegal c then repl @ re_sub_illegal repl (dropWhile illegal cs)
      else c # re_sub_illegal repl cs)"
  by pat_completeness auto
termination
  by (relation "measure (\<lambda>(repl, s). length s)")
     (auto simp: length_dropWhile_le less_Suc_eq_le)

definition sanitize :: "os_path \<Rightarrow> config \<Rightarrow> string \<Rightarrow> string" where
  "sanitize osp cfg string =
     (let repl = replaceillegal cfg;
          string1 = re_sub_illegal repl string;
          (drive, path) = os_splitdrive osp string1;
          path1 = str_replace path '':'' repl
      in drive @ path1)"


section \<open>Template compiler\<close>

text \<open>
  \<^verbatim>\<open>v or ''\<close> as the second argument of \<^verbatim>\<open>str.replace\<close>: a false value gives the empty
  string, a non-empty string itself; any other true value makes \<^verbatim>\<open>replace\<close> raise
  \<^verbatim>\<open>TypeError\<close>.
\<close>

fun or_empty :: "pyval \<Rightarrow> error + string" where
  "or_empty (PStr s) = Inr s"
| "or_empty v = (if truthy v then Inl TypeError else Inr [])"

text \<open>The loop over \<^verbatim>\<open>data.items()\<close>, in the order of the dictionary.\<close>

fun substitute :: "dict \<Rightarrow> string \<Rightarrow> error + string" where
  "substitute [] new_string = Inr new_string"
| "substitute ((k, v) # items) new_string =
     (let k1 = ''{'' @ k @ ''}''
      in if str_in k1 new_string
         then bindE (or_empty v) (\<lambda>r. substitute items (str_replace new_string k1 r))
         else substitute items new_string)"

lemma replace_scan_length_le:
  "length new \<le> length old \<Longrightarrow> length (replace_scan old new s) \<le> length s"
proof (induction old new s rule: replace_scan.induct)
  case (1 old new)
  then show ?case by simp
next
  case (2 old new c cs)
  show ?case
  proof (cases "old \<noteq> [] \<and> prefix old (c # cs)")
    case True
    then have len: "length old \<le> Suc (length cs)"
      using prefix_length_le by fastforce
    have "length (replace_scan old new (drop (length old - 1) cs)) \<le> length cs - (length old - 1)"
      using 2 True by simp
    then show ?thesis using True len 2(3) by simp
  next
    case False
    then show ?thesis using 2 by auto
  qed
qed

lemma replace_scan_length_less:
  "length new < length old \<Longrightarrow> str_in old s \<Longrightarrow> length (replace_scan old new s) < length s"
proof (induction old new s rule: replace_scan.induct)
  case (1 old new)
  then show ?case by simp
next
  case (2 old new c cs)
  have oldne: "old \<noteq> []" using 2(3) by auto
  show ?case
  proof (cases "prefix old (c # cs)")
    case True
    then have len: "length old \<le> Suc (length cs)"
      using prefix_length_le by fastforce
    have "length (replace_scan old new (drop (length old - 1) cs)) \<le> length cs - (length old - 1)"
      using replace_scan_length_le [of new old "drop (length old - 1) cs"] 2(3) by simp
    then show ?thesis using True oldne len 2(3) by simp
  next
    case False
    then have "str_in old cs" using 2(4) by simp
    then have "length (replace_scan old new cs) < length cs"
      using 2(2) [OF _ 2(3)] False by simp
    then show ?thesis using False by simp
  qed
qed

text \<open>\<^verbatim>\<open>while '  ' in new_string: new_string = new_string.replace('  ', ' ')\<close>\<close>

function collapse_spaces :: "string \<Rightarrow> string" where
  "collapse_spaces s =
     (if str_in ''  '' s then collapse_spaces (str_replace s ''  '' '' '') else s)"
  by pat_completeness auto
termination
  by (relation "measure length") (auto simp: str_replace_def replace_scan_length_less)

declare collapse_spaces.simps [simp del]

text \<open>
  \<^verbatim>\<open>while len(new_string) > 1 and new_string[-1] == ' ': new_string = new_string[:-1]\<close>
\<close>

function strip_trailing :: "string \<Rightarrow> string" where
  "strip_trailing s =
     (if 1 < length s \<and> last s = CHR '' '' then strip_trailing (butlast s) else s)"
  by pat_completeness auto
termination
  by (relation "measure length") auto

declare strip_trailing.simps [simp del]

definition compile_path :: "os_path \<Rightarrow> config \<Rightarrow> string \<Rightarrow> dict \<Rightarrow> error + string" where
  "compile_path osp cfg string data =
     bindE (substitute data string) (\<lambda>s1.
       let s2 = collapse_spaces s1;
           s3 = strip_trailing s2;
           new_string = map_remote cfg s3
       in Inr (sanitize osp cfg new_string))"


section \<open>Collaborators and their effects\<close>

text \<open>
  The record store, the status manager, the metadata service, the snatcher, the plugin
  hook and the filesystem are outside the file. A call that can change them is logged as
  an \<open>event\<close>; the \<open>trace\<close> of a request is the list of its events in the order of the
  calls. What a call answers is given by the environment \<open>env\<close>, as a function of the
  trace so far and of the arguments, so that an answer may depend on everything done
  before (a path stops being a file once it has been moved away).
\<close>

datatype event =
    Searchresults pyval string "dict option"
  | Markedresults pyval string pyval
  | MovieStatus pyval
  | AddMovie dict
  | UpdateMultiple dict pyval
  | UpdateFinishedFile pyval pyval
  | Rename string string
  | Mover dict
  | Rmtree string
  | Remove string
  | Download pyval
  | PluginsFinished "pyval list"

type_synonym trace = "event list"

text \<open>
  \<open>listdir_ok\<close>, \<open>rename_ok\<close>, \<open>rmtree_ok\<close> and \<open>remove_ok\<close> say whether the call returns
  (\<open>False\<close>: it raises, and the code catches the exception). \<open>walk\<close> is \<^verbatim>\<open>os.walk\<close>: the
  triples \<^verbatim>\<open>(root, dirs, filenames)\<close> in the order they are produced. The lookups of the
  record store answer a row as a dictionary, empty when there is none. \<open>getsize\<close> is asked
  for the files \<open>walk\<close> has just listed and answers their size. \<open>mover\<close> is the
  answer of \<^verbatim>\<open>self.mover(data)\<close>, the new location of the file or an empty string; its
  own file operations are one event.
\<close>

record env =
  isfile :: "trace \<Rightarrow> string \<Rightarrow> bool"
  isdir :: "trace \<Rightarrow> string \<Rightarrow> bool"
  listdir_ok :: "trace \<Rightarrow> string \<Rightarrow> bool"
  walk :: "trace \<Rightarrow> string \<Rightarrow> (string \<times> string list \<times> string list) list"
  getsize :: "trace \<Rightarrow> string \<Rightarrow> nat"
  rename_ok :: "trace \<Rightarrow> string \<Rightarrow> string \<Rightarrow> bool"
  rmtree_ok :: "trace \<Rightarrow> string \<Rightarrow> bool"
  remove_ok :: "trace \<Rightarrow> string \<Rightarrow> bool"
  today :: string
  get_single_search_result :: "trace \<Rightarrow> string \<Rightarrow> pyval \<Rightarrow> dict"
  get_movie_details :: "trace \<Rightarrow> pyval \<Rightarrow> dict"
  row_exists :: "trace \<Rightarrow> pyval \<Rightarrow> bool"
  from_file :: "trace \<Rightarrow> pyval \<Rightarrow> dict"
  convert_to_db :: "dict \<Rightarrow> dict"
  searchresults :: "trace \<Rightarrow> pyval \<Rightarrow> string \<Rightarrow> dict option \<Rightarrow> bool"
  markedresults :: "trace \<Rightarrow> pyval \<Rightarrow> string \<Rightarrow> pyval \<Rightarrow> bool"
  movie_status :: "trace \<Rightarrow> pyval \<Rightarrow> pyval"
  best_release :: "trace \<Rightarrow> dict \<Rightarrow> pyval"
  download :: "trace \<Rightarrow> pyval \<Rightarrow> bool"
  mover :: "trace \<Rightarrow> dict \<Rightarrow> error + pyval"

text \<open>A value handed to a path function must be a string.\<close>

fun as_str :: "pyval \<Rightarrow> error + string" where
  "as_str (PStr s) = Inr s"
| "as_str v = Inl TypeError"

section \<open>File locator\<close>

text \<open>The loop that keeps the first file strictly bigger than every file before it.\<close>

fun biggest :: "(string \<Rightarrow> nat) \<Rightarrow> string list \<Rightarrow> pyval \<Rightarrow> nat \<Rightarrow> pyval" where
  "biggest size_of [] biggestfile s = biggestfile"
| "biggest size_of (file # files) biggestfile s =
     (if s < size_of file then biggest size_of files (PStr file) (size_of file)
      else biggest size_of files biggestfile s)"

definition walk_files :: "os_path \<Rightarrow> (string \<times> string list \<times> string list) list \<Rightarrow> string list" where
  "walk_files osp triples =
     concat (map (\<lambda>(root, dirs, filenames). map (os_join osp root) filenames) triples)"

definition get_movie_file :: "os_path \<Rightarrow> env \<Rightarrow> trace \<Rightarrow> string \<Rightarrow> pyval" where
  "get_movie_file osp env tr path =
     (if isfile env tr path then PStr path
      else if \<not> listdir_ok env tr path then PStr []
      else (let files = walk_files osp (walk env tr path)
            in if files = [] then PStr []
               else biggest (getsize env tr) files PNone 0))"

section \<open>Cleanup\<close>

definition cleanup :: "env \<Rightarrow> trace \<Rightarrow> string \<Rightarrow> bool \<times> trace" where
  "cleanup env tr path =
     (if isdir env tr path then (rmtree_ok env tr path, tr @ [Rmtree path])
      else if isfile env tr path then (remove_ok env tr path, tr @ [Remove path])
      else (False, tr))"

section \<open>Renamer\<close>

text \<open>
  \<^verbatim>\<open>re.match(r'{(.*?)}', s)\<close> matches at the start of \<open>s\<close> only: \<open>s\<close> begins with \<open>{\<close> and a
  \<open>}\<close> follows with no line break before it (\<open>.\<close> does not match a line break).
\<close>

fun closes_brace :: "string \<Rightarrow> bool" where
  "closes_brace [] = False"
| "closes_brace (c # cs) =
     (if c = CHR ''}'' then True else if c = CHR 0x0A then False else closes_brace cs)"

fun re_match_braces :: "string \<Rightarrow> bool" where
  "re_match_braces [] = False"
| "re_match_braces (c # cs) = (c = CHR ''{'' \<and> closes_brace cs)"

definition renamer :: "os_path \<Rightarrow> env \<Rightarrow> config \<Rightarrow> dict \<Rightarrow> trace \<Rightarrow> error + string \<times> trace" where
  "renamer osp env cfg d tr =
     (let renamer_string = renamerstring cfg
      in if \<not> re_match_braces renamer_string then Inr ([], tr)
         else
           bindE (dindex d ''movie_file'') (\<lambda>mf.
           bindE (as_str mf) (\<lambda>abs_path_old.
             let file_path = fst (os_split osp abs_path_old);
                 ext = snd (os_splitext osp abs_path_old)
             in bindE (compile_path osp cfg renamer_string d) (\<lambda>new_name.
                  if new_name = [] then Inr ([], tr)
                  else
                    (let new_name1 =
                           (if replacespaces cfg then str_replace new_name '' '' ''.''
                            else new_name) @ ext;
                         abs_path_new = os_join osp file_path new_name1
                     in if rename_ok env tr abs_path_old abs_path_new
                        then Inr (new_name1, tr @ [Rename abs_path_old abs_path_new])
                        else Inr ([], tr @ [Rename abs_path_old abs_path_new]))))))"


section \<open>Pipeline orchestrator\<close>

text \<open>
  The dictionary \<^verbatim>\<open>result\<close> both branches build and return. \<^verbatim>\<open>result['data']\<close> is the very
  dictionary \<^verbatim>\<open>data\<close> the branch works on, so every later change of \<^verbatim>\<open>data\<close> shows in the
  report: the model keeps one copy, in the field \<open>data\<close>. The keys of \<^verbatim>\<open>tasks\<close> are values,
  since \<^verbatim>\<open>complete\<close> files the guid entries under the guid itself.
\<close>

record result =
  status :: string
  data :: dict
  tasks :: "(pyval \<times> pyval) list"

definition set_task :: "string \<Rightarrow> pyval \<Rightarrow> result \<Rightarrow> result" where
  "set_task k v r = r\<lparr>tasks := AList.update (PStr k) v (tasks r)\<rparr>"

definition task :: "result \<Rightarrow> string \<Rightarrow> pyval option" where
  "task r k = map_of (tasks r) (PStr k)"

definition set_data :: "string \<Rightarrow> pyval \<Rightarrow> result \<Rightarrow> result" where
  "set_data k v r = r\<lparr>data := AList.update k v (data r)\<rparr>"

text \<open>A list or a dictionary cannot be the key of a dictionary.\<close>

fun hashable :: "pyval \<Rightarrow> bool" where
  "hashable (PList xs) = False"
| "hashable (PDict d) = False"
| "hashable v = True"

subsection \<open>The failed branch\<close>

definition failed_guid :: "env \<Rightarrow> dict \<Rightarrow> result \<Rightarrow> trace \<Rightarrow> error + result \<times> trace" where
  "failed_guid env d r tr =
     bindE (dindex d ''guid'') (\<lambda>guid.
       if truthy guid then
         (let sr = searchresults env tr guid ''Bad'' None;
              tr1 = tr @ [Searchresults guid ''Bad'' None]
          in bindE (dindex d ''imdbid'') (\<lambda>imdbid.
               let mr = markedresults env tr1 guid ''Bad'' imdbid;
                   tr2 = tr1 @ [Markedresults guid ''Bad'' imdbid]
               in Inr (set_task ''guid''
                         (PDict [(''url'', guid), (''update_SEARCHRESULTS'', PBool sr),
                                 (''update_MARKEDRESULTS'', PBool mr)]) r, tr2)))
       else Inr (set_task ''guid'' (PDict [(''url'', guid)]) r, tr))"

definition failed_guid2 :: "env \<Rightarrow> dict \<Rightarrow> result \<Rightarrow> trace \<Rightarrow> error + result \<times> trace" where
  "failed_guid2 env d r tr =
     (case map_of d ''guid2'' of
        None \<Rightarrow> Inr (r, tr)
      | Some guid2 \<Rightarrow>
          (let sr = searchresults env tr guid2 ''Bad'' None;
               tr1 = tr @ [Searchresults guid2 ''Bad'' None]
           in bindE (dindex d ''imdbid'') (\<lambda>imdbid.
                let mr = markedresults env tr1 guid2 ''Bad'' imdbid;
                    tr2 = tr1 @ [Markedresults guid2 ''Bad'' imdbid]
                in Inr (set_task ''guid2''
                          (PDict [(''url'', guid2), (''update SEARCHRESULTS'', PBool sr),
                                  (''update_MARKEDRESULTS'', PBool mr)]) r, tr2))))"

definition failed_movie_status :: "env \<Rightarrow> dict \<Rightarrow> result \<Rightarrow> trace \<Rightarrow> error + result \<times> trace" where
  "failed_movie_status env d r tr =
     bindE (dindex d ''imdbid'') (\<lambda>imdbid.
       if truthy imdbid
       then Inr (set_task ''update_movie_status'' (movie_status env tr imdbid) r,
                 tr @ [MovieStatus imdbid])
       else Inr (set_task ''update_movie_status'' (PStr []) r, tr))"

definition failed_cleanup ::
  "env \<Rightarrow> config \<Rightarrow> dict \<Rightarrow> result \<Rightarrow> trace \<Rightarrow> error + result \<times> trace" where
  "failed_cleanup env cfg d r tr =
     (if cleanupfailed cfg then
        bindE (dindex d ''path'') (\<lambda>p.
        bindE (as_str p) (\<lambda>path.
          let (ok, tr1) = cleanup env tr path
          in Inr (set_task ''cleanup''
                    (PDict [(''enabled'', PBool True), (''path'', p), (''response'', PBool ok)]) r,
                  tr1)))
      else Inr (set_task ''cleanup'' (PDict [(''enabled'', PBool False)]) r, tr))"

definition failed_autograb :: "env \<Rightarrow> config \<Rightarrow> dict \<Rightarrow> result \<Rightarrow> trace \<Rightarrow> result \<times> trace" where
  "failed_autograb env cfg d r tr =
     (if autograb cfg then
        (if truthy (dget d ''imdbid'') \<and> truthy (dget d ''quality'') then
           (let best = best_release env tr d
            in if truthy best
               then (set_task ''autograb''
                       (PDict [(''enabled'', PBool True), (''response'', PBool (download env tr best))]) r,
                     tr @ [Download best])
               else (set_task ''autograb''
                       (PDict [(''enabled'', PBool True), (''response'', PBool False)]) r, tr))
         else (set_task ''autograb''
                 (PDict [(''enabled'', PBool True), (''response'', PBool False)]) r, tr))
      else (set_task ''autograb'' (PDict [(''enabled'', PBool False)]) r, tr))"

definition failed :: "env \<Rightarrow> config \<Rightarrow> dict \<Rightarrow> trace \<Rightarrow> error + result \<times> trace" where
  "failed env cfg d tr =
     bindE (failed_guid env d \<lparr>status = ''finished'', data = d, tasks = []\<rparr> tr) (\<lambda>(r1, tr1).
     bindE (failed_guid2 env d r1 tr1) (\<lambda>(r2, tr2).
     bindE (failed_movie_status env d r2 tr2) (\<lambda>(r3, tr3).
     bindE (failed_cleanup env cfg d r3 tr3) (\<lambda>(r4, tr4).
       let (r5, tr5) = failed_autograb env cfg d r4 tr4
       in Inr (r5\<lparr>status := ''finished''\<rparr>, tr5)))))"

subsection \<open>The complete branch\<close>

text \<open>The two updates of the result tables for one guid, and its entry in the report.\<close>

definition mark_finished :: "env \<Rightarrow> pyval \<Rightarrow> result \<Rightarrow> trace \<Rightarrow> error + result \<times> trace" where
  "mark_finished env g r tr =
     (let sr = searchresults env tr g ''Finished'' (Some (data r));
          tr1 = tr @ [Searchresults g ''Finished'' (Some (data r))]
      in bindE (dindex (data r) ''imdbid'') (\<lambda>imdbid.
           let mr = markedresults env tr1 g ''Finished'' imdbid;
               tr2 = tr1 @ [Markedresults g ''Finished'' imdbid]
           in if hashable g
              then Inr (r\<lparr>tasks := AList.update g
                           (PDict [(''update_SEARCHRESULTS'', PBool sr),
                                   (''update_MARKEDRESULTS'', PBool mr)]) (tasks r)\<rparr>, tr2)
              else Inl TypeError))"

definition complete_guid :: "env \<Rightarrow> result \<Rightarrow> trace \<Rightarrow> error + result \<times> trace" where
  "complete_guid env r tr =
     bindE (dindex (data r) ''guid'') (\<lambda>guid.
       if truthy guid \<and> truthy (dget (data r) ''imdbid'')
       then mark_finished env guid r tr
       else Inr (r, tr))"

definition complete_guid2 :: "env \<Rightarrow> result \<Rightarrow> trace \<Rightarrow> error + result \<times> trace" where
  "complete_guid2 env r tr =
     (if truthy (dget (data r) ''guid2'') \<and> truthy (dget (data r) ''imdbid'')
      then mark_finished env (dget (data r) ''guid2'') r tr
      else Inr (r, tr))"

definition complete_movie_status :: "env \<Rightarrow> result \<Rightarrow> trace \<Rightarrow> result \<times> trace" where
  "complete_movie_status env r tr =
     (let imdbid = dget (data r) ''imdbid''
      in if truthy imdbid then
           (let (r1, tr1) =
                  (if \<not> row_exists env tr imdbid
                   then (let r0 = set_data ''status'' (PStr ''Disabled'') r
                         in (r0, tr @ [AddMovie (data r0)]))
                   else (r, tr));
                st = movie_status env tr1 imdbid;
                tr2 = tr1 @ [MovieStatus imdbid];
                db_update = [(''finished_date'', dget (data r1) ''finished_date''),
                             (''finished_score'', dget (data r1) ''finished_score'')]
            in (set_task ''update_movie_status'' st r1, tr2 @ [UpdateMultiple db_update imdbid]))
         else (set_task ''update_movie_status'' (PStr []) r, tr))"

definition complete_metadata :: "env \<Rightarrow> result \<Rightarrow> error + result" where
  "complete_metadata env r =
     (let r1 = r\<lparr>data := dupdate (data r) (convert_to_db env (data r))\<rparr>
      in bindE (dindex (data r1) ''movie_file'') (\<lambda>mf. Inr (set_data ''original_file'' mf r1)))"

definition complete_renamer ::
  "os_path \<Rightarrow> env \<Rightarrow> config \<Rightarrow> result \<Rightarrow> trace \<Rightarrow> error + result \<times> trace" where
  "complete_renamer osp env cfg r tr =
     (if renamerenabled cfg then
        bindE (renamer osp env cfg (data r) tr) (\<lambda>(new_file_name, tr1).
          if new_file_name = []
          then Inr (set_task ''renamer''
                      (PDict [(''enabled'', PBool True), (''response'', PBool False)]) r, tr1)
          else
            bindE (dindex (data r) ''movie_file'') (\<lambda>mf.
            bindE (as_str mf) (\<lambda>movie_file.
              let path = fst (os_split osp movie_file)
              in Inr (set_task ''renamer''
                        (PDict [(''enabled'', PBool True), (''response'', PBool True)])
                        (set_data ''movie_file'' (PStr (os_join osp path new_file_name)) r),
                      tr1))))
      else Inr (set_task ''mover'' (PDict [(''enabled'', PBool False)]) r, tr))"

definition complete_mover :: "env \<Rightarrow> config \<Rightarrow> result \<Rightarrow> trace \<Rightarrow> error + result \<times> trace" where
  "complete_mover env cfg r tr =
     (if moverenabled cfg then
        bindE (mover env tr (data r)) (\<lambda>response.
          let tr1 = tr @ [Mover (data r)]
          in if \<not> truthy response
             then Inr (set_task ''mover''
                         (PDict [(''enabled'', PBool True), (''response'', PBool False)]) r, tr1)
             else Inr (set_task ''mover''
                         (PDict [(''enabled'', PBool True), (''response'', PBool True)])
                         (set_data ''finished_file'' response r), tr1))
      else Inr (set_task ''mover'' (PDict [(''enabled'', PBool False)]) r, tr))"

definition complete_finished_file :: "result \<Rightarrow> trace \<Rightarrow> trace" where
  "complete_finished_file r tr =
     (if truthy (dget (data r) ''imdbid'')
      then tr @ [UpdateFinishedFile (dget (data r) ''finished_file'') (dget (data r) ''imdbid'')]
      else tr)"

text \<open>
  \<^verbatim>\<open>result['tasks']['mover']['response'] is False\<close>: both subscripts raise \<^verbatim>\<open>KeyError\<close> on a
  missing key, and a subscript of a value that is no dictionary raises \<^verbatim>\<open>TypeError\<close>.
\<close>

definition mover_response :: "result \<Rightarrow> error + pyval" where
  "mover_response r =
     (case task r ''mover'' of
        None \<Rightarrow> Inl (KeyError ''mover'')
      | Some (PDict e) \<Rightarrow> dindex e ''response''
      | Some v \<Rightarrow> Inl TypeError)"

text \<open>
  The cleanup step. Its first two branches end with \<^verbatim>\<open>return result\<close>: the status stays as
  it was. The other branches run on to \<^verbatim>\<open>result['status'] = 'finished'\<close>.
\<close>

definition complete_cleanup :: "env \<Rightarrow> config \<Rightarrow> result \<Rightarrow> trace \<Rightarrow> error + result \<times> trace" where
  "complete_cleanup env cfg r tr =
     (if cleanupenabled cfg then
        (if movermethod cfg = ''hardlink'' \<or> movermethod cfg = ''symboliclink''
         then Inr (set_task ''cleanup'' (PDict [(''enabled'', PBool True), (''response'', PNone)]) r, tr)
         else
           bindE (dindex (data r) ''path'') (\<lambda>p.
           bindE (as_str p) (\<lambda>path.
             if isfile env tr path
             then Inr (set_task ''cleanup''
                         (PDict [(''enabled'', PBool True), (''response'', PNone)]) r, tr)
             else
               bindE (if moverenabled cfg = False then Inr True
                      else bindE (mover_response r) (\<lambda>v. Inr (v = PBool False))) (\<lambda>skip.
                 if skip
                 then Inr ((set_task ''cleanup''
                              (PDict [(''enabled'', PBool True), (''response'', PNone)]) r)
                             \<lparr>status := ''finished''\<rparr>, tr)
                 else
                   (let (ok, tr1) = cleanup env tr path
                    in Inr ((set_task ''cleanup''
                               (PDict [(''enabled'', PBool True), (''response'', PBool ok)]) r)
                              \<lparr>status := ''finished''\<rparr>, tr1))))))
      else Inr ((set_task ''cleanup'' (PDict [(''enabled'', PBool False)]) r)
                  \<lparr>status := ''finished''\<rparr>, tr))"

text \<open>The steps of \<^verbatim>\<open>complete\<close> up to the cleanup, and \<^verbatim>\<open>complete\<close> itself.\<close>

definition complete_steps ::
  "os_path \<Rightarrow> env \<Rightarrow> config \<Rightarrow> dict \<Rightarrow> trace \<Rightarrow> error + result \<times> trace" where
  "complete_steps osp env cfg d tr =
     (let r0 = \<lparr>status = ''incomplete'',
                data = AList.update ''finished_date'' (PStr (today env)) d, tasks = []\<rparr>
      in bindE (complete_guid env r0 tr) (\<lambda>(r1, tr1).
         bindE (complete_guid2 env r1 tr1) (\<lambda>(r2, tr2).
           let (r3, tr3) = complete_movie_status env r2 tr2
           in bindE (complete_metadata env r3) (\<lambda>r4.
              bindE (complete_renamer osp env cfg r4 tr3) (\<lambda>(r5, tr5).
              bindE (complete_mover env cfg r5 tr5) (\<lambda>(r6, tr6).
                Inr (r6, complete_finished_file r6 tr6)))))))"

definition complete :: "os_path \<Rightarrow> env \<Rightarrow> config \<Rightarrow> dict \<Rightarrow> trace \<Rightarrow> error + result \<times> trace" where
  "complete osp env cfg d tr =
     bindE (complete_steps osp env cfg d tr) (\<lambda>(r, tr1). complete_cleanup env cfg r tr1)"

subsection \<open>Gathering the release information\<close>

text \<open>
  \<^verbatim>\<open>get_movie_info\<close> changes \<^verbatim>\<open>data\<close> in place and returns a second dictionary; the model
  returns both, the returned dictionary first. It only reads its collaborators (the record
  store is asked for the download id as the request gives it; the code passes its \<^verbatim>\<open>str()\<close>).
\<close>

definition find_result :: "env \<Rightarrow> dict \<Rightarrow> trace \<Rightarrow> error + dict \<times> dict" where
  "find_result env d tr =
     bindE (dindex d ''guid'') (\<lambda>guid.
       let res = get_single_search_result env tr ''guid'' guid
       in if res = [] then
            (if truthy (dget d ''downloadid'') then
               (let res2 = get_single_search_result env tr ''downloadid'' (dget d ''downloadid'')
                in if res2 \<noteq> [] then
                     bindE (dindex res2 ''guid'') (\<lambda>g.
                       if g \<noteq> guid then Inr (res2, AList.update ''guid2'' g d)
                       else Inr (res2, d))
                   else Inr (res2, d))
             else Inr (res, d))
          else Inr (res, d))"

definition merge_local :: "env \<Rightarrow> dict \<Rightarrow> dict \<Rightarrow> trace \<Rightarrow> error + dict" where
  "merge_local env res d tr =
     (if res \<noteq> [] then
        bindE (dindex res ''imdbid'') (\<lambda>imdbid.
          let local = get_movie_details env tr imdbid
          in if local \<noteq> [] then
               bindE (dindex res ''score'') (\<lambda>score.
               bindE (dindex res ''resolution'') (\<lambda>resolution.
               bindE (dindex res ''downloadid'') (\<lambda>downloadid.
                 Inr (AList.update ''downloadid'' downloadid
                        (AList.update ''resolution'' resolution
                           (AList.update ''finished_score'' score (dupdate d local)))))))
             else Inr d)
      else Inr d)"

definition get_movie_info :: "env \<Rightarrow> dict \<Rightarrow> trace \<Rightarrow> error + dict \<times> dict" where
  "get_movie_info env d tr =
     bindE (find_result env d tr) (\<lambda>(res, d1).
     bindE (merge_local env res d1 tr) (\<lambda>d2.
       if d2 \<noteq> [] then
         bindE (dindex d2 ''movie_file'') (\<lambda>mf.
           let mdata = dupdate (from_file env tr mf) d2
           in if \<not> truthy (dget mdata ''quality'')
              then Inr (mdata, AList.update ''quality'' (PStr ''Default'') d2)
              else Inr (mdata, d2))
       else Inr ([], d2)))"

subsection \<open>The request handler\<close>

text \<open>
  \<^verbatim>\<open>POST\<close> answers either a plain dictionary (a refusal) or the report of a branch. The
  first required key that is missing is reported.
\<close>

datatype response = Answer dict | Report result

definition refusal :: "string \<Rightarrow> response" where
  "refusal msg = Answer [(''response'', PBool False), (''error'', PStr msg)]"

fun missing_key :: "string list \<Rightarrow> dict \<Rightarrow> string option" where
  "missing_key [] d = None"
| "missing_key (key # keys) d = (if map_of d key = None then Some key else missing_key keys d)"

definition finished_args :: "dict \<Rightarrow> pyval list" where
  "finished_args d =
     map (dget d) [''title'', ''year'', ''imdbid'', ''resolution'', ''rated'', ''original_file'',
                   ''finished_file'', ''downloadid'', ''finished_date'', ''quality'']"

definition POST :: "os_path \<Rightarrow> env \<Rightarrow> config \<Rightarrow> dict \<Rightarrow> trace \<Rightarrow> error + response \<times> trace" where
  "POST osp env cfg d tr =
     (case missing_key [''apikey'', ''mode'', ''guid'', ''path''] d of
        Some key \<Rightarrow> Inr (refusal (''missing key: '' @ key), tr)
      | None \<Rightarrow>
          if dget d ''apikey'' \<noteq> PStr (apikey cfg) then Inr (refusal ''incorrect api key'', tr)
          else if dget d ''mode'' \<noteq> PStr ''failed'' \<and> dget d ''mode'' \<noteq> PStr ''complete''
          then Inr (refusal ''invalid mode value'', tr)
          else
            bindE (case dget d ''path'' of PStr path \<Rightarrow> Inr path | v \<Rightarrow> Inl AttributeError) (\<lambda>path.
              let path1 = map_remote cfg path;
                  d1 = AList.update ''path'' (PStr path1) d;
                  d2 = AList.update ''movie_file'' (get_movie_file osp env tr path1) d1
              in bindE (get_movie_info env d2 tr) (\<lambda>(mdata, d3).
                   let d4 = dupdate d3 mdata
                   in if dget d4 ''mode'' = PStr ''failed'' then
                        bindE (failed env cfg d4 tr) (\<lambda>(r, tr1). Inr (Report r, tr1))
                      else if dget d4 ''mode'' = PStr ''complete'' then
                        bindE (complete osp env cfg d4 tr) (\<lambda>(r, tr1).
                          let d5 = AList.delete ''source''
                                     (AList.delete ''predb'' (AList.delete ''backlog'' (data r)))
                          in Inr (Report (r\<lparr>data := d5\<rparr>), tr1 @ [PluginsFinished (finished_args d5)]))
                      else Inr (refusal ''invalid mode value'', tr))))"

text \<open>The shapes of a task entry, for the statements below.\<close>

definition entry :: "bool \<Rightarrow> pyval \<Rightarrow> pyval" where
  "entry en resp = PDict [(''enabled'', PBool en), (''response'', resp)]"

definition disabled_entry :: pyval where
  "disabled_entry = PDict [(''enabled'', PBool False)]"

section \<open>Sample values\<close>

text \<open>A configuration with renamer, mover and both cleanups enabled and no remote mapping.\<close>

definition sample_config :: config where
  "sample_config = \<lparr>apikey = ''secret'', autograb = False, renamerenabled = True,
     renamerstring = ''{title} ({year})'', replacespaces = False, replaceillegal = [],
     moverenabled = True, movermethod = ''move'', cleanupenabled = True, cleanupfailed = True,
     RemoteMapping = []\<rparr>"

text \<open>
  A small world for concrete runs. The download client has left either the single file
  \<^verbatim>\<open>/dl/Heat.1995.mkv\<close> or the directory \<^verbatim>\<open>/dl/Heat.1995\<close> with three files of 10, 500 and
  200 bytes. A file that has been renamed or moved is no longer a file at its old path, and
  a removed directory is no longer a directory. The record store knows the guid
  \<^verbatim>\<open>abc123\<close> and the movie \<^verbatim>\<open>tt0113277\<close>; every collaborator succeeds, and the mover
  answers the file's place under \<^verbatim>\<open>/movies\<close>.
\<close>

fun moves_file :: "event \<Rightarrow> bool" where
  "moves_file (Rename old new) = True"
| "moves_file (Mover d) = True"
| "moves_file (Remove path) = True"
| "moves_file e = False"

fun removes_tree :: "event \<Rightarrow> bool" where
  "removes_tree (Rmtree path) = True"
| "removes_tree e = False"

definition sample_sizes :: "string \<Rightarrow> nat" where
  "sample_sizes p =
     (if p = ''/dl/Heat.1995/info.nfo'' then 10
      else if p = ''/dl/Heat.1995/Heat.1995.mkv'' then 500
      else if p = ''/dl/Heat.1995/sample.mkv'' then 200
      else 0)"

definition sample_env :: env where
  "sample_env = \<lparr>
     isfile = (\<lambda>tr p. p = ''/dl/Heat.1995.mkv'' \<and> \<not> list_ex moves_file tr),
     isdir = (\<lambda>tr p. p = ''/dl/Heat.1995'' \<and> \<not> list_ex removes_tree tr),
     listdir_ok = (\<lambda>tr p. p = ''/dl/Heat.1995'' \<and> \<not> list_ex removes_tree tr),
     walk = (\<lambda>tr p. if p = ''/dl/Heat.1995'' \<and> \<not> list_ex removes_tree tr
                      then [(''/dl/Heat.1995'', [], [''info.nfo'', ''Heat.1995.mkv'', ''sample.mkv''])]
                      else []),
     getsize = (\<lambda>tr. sample_sizes),
     rename_ok = (\<lambda>tr old new. True),
     rmtree_ok = (\<lambda>tr p. True),
     remove_ok = (\<lambda>tr p. True),
     today = ''2017-06-01'',
     get_single_search_result =
       (\<lambda>tr k v. if k = ''guid'' \<and> v = PStr ''abc123''
                  then [(''guid'', PStr ''abc123''), (''imdbid'', PStr ''tt0113277''),
                        (''score'', PInt 900), (''resolution'', PStr ''1080P''),
                        (''downloadid'', PStr ''42'')]
                  else []),
     get_movie_details =
       (\<lambda>tr v. if v = PStr ''tt0113277''
                then [(''imdbid'', PStr ''tt0113277''), (''title'', PStr ''Heat''),
                      (''year'', PStr ''1995''), (''quality'', PStr ''Default'')]
                else []),
     row_exists = (\<lambda>tr v. v = PStr ''tt0113277''),
     from_file = (\<lambda>tr mf. [(''title'', PNone), (''year'', PNone), (''imdbid'', PNone),
                            (''resolution'', PNone), (''quality'', PNone)]),
     convert_to_db = (\<lambda>d. []),
     searchresults = (\<lambda>tr g st mi. True),
     markedresults = (\<lambda>tr g st i. True),
     movie_status = (\<lambda>tr i. PStr ''Finished''),
     best_release = (\<lambda>tr d. PNone),
     download = (\<lambda>tr b. True),
     mover = (\<lambda>tr d. case dget d ''movie_file'' of
                         PStr f \<Rightarrow> Inr (PStr (''/movies/'' @ posix_basename f))
                       | v \<Rightarrow> Inl TypeError)\<rparr>"

text \<open>A download directory that holds one empty file.\<close>

definition zero_env :: env where
  "zero_env = sample_env\<lparr>
     isfile := (\<lambda>tr p. False), listdir_ok := (\<lambda>tr p. True),
     walk := (\<lambda>tr p. [(p, [], [''empty.mkv''])]), getsize := (\<lambda>tr p. 0)\<rparr>"

text \<open>The requests of the download client for the file and for the directory.\<close>

definition sample_request :: "string \<Rightarrow> string \<Rightarrow> dict" where
  "sample_request m p =
     [(''apikey'', PStr ''secret''), (''mode'', PStr m), (''guid'', PStr ''abc123''),
      (''path'', PStr p)]"

text \<open>The dictionary \<^verbatim>\<open>POST\<close> hands to a branch for such a request.\<close>

definition sample_data :: "string \<Rightarrow> string \<Rightarrow> string \<Rightarrow> dict" where
  "sample_data m p f =
     [(''apikey'', PStr ''secret''), (''mode'', PStr m), (''guid'', PStr ''abc123''),
      (''path'', PStr p), (''movie_file'', PStr f), (''imdbid'', PStr ''tt0113277''),
      (''title'', PStr ''Heat''), (''year'', PStr ''1995''), (''quality'', PStr ''Default'')]"

section \<open>Properties of the remote path mapping\<close>

lemma map_remote_no_match:
  "\<forall>r \<in> set (map fst (RemoteMapping cfg)). \<not> prefix r path \<Longrightarrow> map_remote cfg path = path"
  by (simp add: map_remote_def filter_empty_conv Let_def split: list.splits)

text \<open>
  C4. The claim: a path no remote prefix matches is returned unchanged, and otherwise the
  longest matching remote prefix is applied exactly once, replacing only the prefix of the
  path. The first half holds (\<open>map_remote_no_match\<close>). The second does not:
  \<^verbatim>\<open>path.replace(match, maps[match])\<close> rewrites every occurrence of the remote prefix in
  the path, not only the leading one. With the mapping \<^verbatim>\<open>/dl/\<close> to \<^verbatim>\<open>/mnt/nas/\<close>, the path
  \<^verbatim>\<open>/dl/Movie/dl/movie.mkv\<close> becomes \<^verbatim>\<open>/mnt/nas/Movie/mnt/nas/movie.mkv\<close>, where replacing
  the prefix alone gives \<^verbatim>\<open>/mnt/nas/Movie/dl/movie.mkv\<close>.
\<close>

theorem map_remote_replaces_every_occurrence:
  "map_remote (sample_config\<lparr>RemoteMapping := [(''/dl/'', ''/mnt/nas/'')]\<rparr>)
       ''/dl/Movie/dl/movie.mkv''
     = ''/mnt/nas/Movie/mnt/nas/movie.mkv''"
  by (simp add: map_remote_def str_replace_def sample_config_def)

section \<open>Properties of the file locator\<close>

text \<open>
  The loop returns the first file of greatest size, provided some file is bigger than the
  starting size; when none is, it returns the starting value.
\<close>

lemma biggest_none_bigger:
  "\<forall>f \<in> set files. size_of f \<le> s \<Longrightarrow> biggest size_of files b s = b"
  by (induction files arbitrary: b s) auto

lemma biggest_first_maximum:
  "\<exists>g \<in> set files. s < size_of g \<Longrightarrow>
   \<exists>pre f post. files = pre @ f # post \<and> biggest size_of files b s = PStr f \<and> s < size_of f \<and>
     (\<forall>g \<in> set pre. size_of g < size_of f) \<and> (\<forall>g \<in> set post. size_of g \<le> size_of f)"
proof (induction files arbitrary: b s)
  case Nil
  then show ?case by simp
next
  case (Cons x xs)
  show ?case
  proof (cases "s < size_of x")
    case True
    show ?thesis
    proof (cases "\<exists>g \<in> set xs. size_of x < size_of g")
      case bigger: True
      from Cons.IH [OF bigger, of "PStr x"] obtain pre f post where
        d: "xs = pre @ f # post" "biggest size_of xs (PStr x) (size_of x) = PStr f"
           "size_of x < size_of f" "\<forall>g \<in> set pre. size_of g < size_of f"
           "\<forall>g \<in> set post. size_of g \<le> size_of f"
        by blast
      have "x # xs = (x # pre) @ f # post" using d(1) by simp
      moreover have "biggest size_of (x # xs) b s = PStr f" using True d(2) by simp
      moreover have "s < size_of f" using True d(3) by simp
      moreover have "\<forall>g \<in> set (x # pre). size_of g < size_of f" using d(3,4) by simp
      ultimately show ?thesis using d(5) by blast
    next
      case False
      then have le: "\<forall>g \<in> set xs. size_of g \<le> size_of x" by auto
      have "biggest size_of (x # xs) b s = PStr x"
        using True biggest_none_bigger [OF le] by simp
      then show ?thesis using True le by (intro exI [of _ "[]"] exI [of _ x] exI [of _ xs]) simp
    qed
  next
    case False
    then have ex: "\<exists>g \<in> set xs. s < size_of g" using Cons.prems by auto
    from Cons.IH [OF ex, of b] obtain pre f post where
      d: "xs = pre @ f # post" "biggest size_of xs b s = PStr f"
         "s < size_of f" "\<forall>g \<in> set pre. size_of g < size_of f"
         "\<forall>g \<in> set post. size_of g \<le> size_of f"
      by blast
    have "x # xs = (x # pre) @ f # post" using d(1) by simp
    moreover have "biggest size_of (x # xs) b s = PStr f" using False d(2) by simp
    moreover have "\<forall>g \<in> set (x # pre). size_of g < size_of f" using False d(3,4) by auto
    ultimately show ?thesis using d(3,5) by blast
  qed
qed

lemma get_movie_file_is_file: "isfile env tr path \<Longrightarrow> get_movie_file osp env tr path = PStr path"
  by (simp add: get_movie_file_def)

lemma get_movie_file_sample:
  "get_movie_file posixpath sample_env [] ''/dl/Heat.1995'' = PStr ''/dl/Heat.1995/Heat.1995.mkv''"
  by (simp add: get_movie_file_def sample_env_def walk_files_def posixpath_def posix_join_def
      sample_sizes_def)

text \<open>
  C8. The claim: for a directory, \<^verbatim>\<open>get_movie_file\<close> returns the enumerated file of greatest
  size (the first one on a tie) and an empty result only when the directory holds no file
  or cannot be listed. The code starts its search with \<^verbatim>\<open>biggestfile = None\<close> and
  \<^verbatim>\<open>s = 0\<close> and keeps a file only when \<^verbatim>\<open>size > s\<close>: for a directory whose files are all
  empty no file is ever kept and the function returns \<^verbatim>\<open>None\<close>, neither a path nor the
  empty string, against its docstring (\<^verbatim>\<open>Returns str absolute path of movie file\<close>).
  The rest of the claim holds (\<open>get_movie_file_is_file\<close>, \<open>biggest_first_maximum\<close>,
  \<open>get_movie_file_sample\<close> for the sizes 10, 500 and 200).
\<close>

theorem get_movie_file_empty_files_none:
  "get_movie_file posixpath zero_env [] ''/dl/Heat.1995'' = PNone"
  by (simp add: get_movie_file_def zero_env_def sample_env_def walk_files_def posixpath_def
      posix_join_def)

section \<open>Properties of the sanitizer\<close>








section \<open>Properties of the renamer\<close>

lemma renamer_sample:
  "renamer posixpath sample_env sample_config
      (sample_data ''complete'' ''/dl/Heat.1995.mkv'' ''/dl/Heat.1995.mkv'') [] =
    Inr (''Heat (1995).mkv'', [Rename ''/dl/Heat.1995.mkv'' ''/dl/Heat (1995).mkv''])"
  by (simp add: renamer_def sample_config_def sample_data_def compile_path_def bindE_def
      str_replace_def map_remote_def sanitize_def posixpath_def illegal_def dindex_def sample_env_def
      posix_split_def posix_splitext_def posix_basename_def posix_join_def rstrip_def Let_def
      collapse_spaces.simps strip_trailing.simps)

text \<open>
  C5. The claim: a template with a \<^verbatim>\<open>{field}\<close> placeholder anywhere in it passes the
  placeholder check, and the renamer fails only for a template without any placeholder, a
  blank compiled name or a failed rename. The check is \<^verbatim>\<open>re.match(r'{(.*?)}', ...)\<close>, and
  \<^verbatim>\<open>re.match\<close> matches at the start of the string only. The template
  \<^verbatim>\<open>Movie {title}\<close> holds the placeholder \<^verbatim>\<open>{title}\<close> and compiles to the name
  \<^verbatim>\<open>Movie Heat\<close>, yet the renamer answers the empty string and leaves the file alone, in a
  world where every rename succeeds.
\<close>

theorem renamer_rejects_placeholder_after_text:
  "renamer posixpath sample_env (sample_config\<lparr>renamerstring := ''Movie {title}''\<rparr>)
      (sample_data ''complete'' ''/dl/Heat.1995.mkv'' ''/dl/Heat.1995.mkv'') [] = Inr ([], [])
   \<and> str_in ''{title}'' ''Movie {title}''
   \<and> compile_path posixpath (sample_config\<lparr>renamerstring := ''Movie {title}''\<rparr>) ''Movie {title}''
        (sample_data ''complete'' ''/dl/Heat.1995.mkv'' ''/dl/Heat.1995.mkv'') = Inr ''Movie Heat''"
  by (simp add: renamer_def sample_config_def sample_data_def compile_path_def bindE_def
      str_replace_def map_remote_def sanitize_def posixpath_def illegal_def
      collapse_spaces.simps strip_trailing.simps)

section \<open>Properties of the template compiler\<close>












section \<open>Properties of the failed branch\<close>

lemma task_set_task [simp]: "task (set_task k v r) k' = (if k' = k then Some v else task r k')"
  by (simp add: task_def set_task_def update_conv)

lemma status_set_task [simp]: "status (set_task k v r) = status r"
  by (simp add: set_task_def)

lemma data_set_task [simp]: "data (set_task k v r) = data r"
  by (simp add: set_task_def)






lemma failed_without_imdbid:
  "map_of d ''guid'' = Some g \<Longrightarrow> map_of d ''imdbid'' = None \<Longrightarrow>
   failed env cfg d tr = Inl (KeyError ''imdbid'')"
  by (simp add: failed_def failed_guid_def failed_guid2_def failed_movie_status_def bindE_def
      dindex_def Let_def split: option.splits)



section \<open>Properties of the request handler\<close>

lemma missing_key_None: "missing_key keys d = None \<longleftrightarrow> list_all (\<lambda>k. map_of d k \<noteq> None) keys"
  by (induction keys) auto

text \<open>What the handler does for valid requests: the failed and the complete branch run.\<close>

lemma POST_sample_failed:
  "(case POST posixpath sample_env sample_config (sample_request ''failed'' ''/dl/Heat.1995'') [] of
      Inr (Report r, tr) \<Rightarrow>
        tr = [Searchresults (PStr ''abc123'') ''Bad'' None,
              Markedresults (PStr ''abc123'') ''Bad'' (PStr ''tt0113277''),
              MovieStatus (PStr ''tt0113277''), Rmtree ''/dl/Heat.1995'']
    | _ \<Rightarrow> False)"
  by code_simp

lemma POST_sample_complete:
  "(case POST posixpath sample_env sample_config (sample_request ''complete'' ''/dl/Heat.1995'') [] of
      Inr (Report r, tr) \<Rightarrow> status r = ''finished'' \<and> length tr = 9 \<and> last tr =
        PluginsFinished [PStr ''Heat'', PStr ''1995'', PStr ''tt0113277'', PStr ''1080P'', PNone,
          PStr ''/dl/Heat.1995/Heat.1995.mkv'', PStr ''/movies/Heat (1995).mkv'', PStr ''42'',
          PStr ''2017-06-01'', PStr ''Default'']
    | _ \<Rightarrow> False)"
  by code_simp

text \<open>
  C9. A request that lacks one of the keys \<^verbatim>\<open>apikey\<close>, \<^verbatim>\<open>mode\<close>, \<^verbatim>\<open>guid\<close>, \<^verbatim>\<open>path\<close>, or
  whose api key is not the configured one, or whose mode is neither \<^verbatim>\<open>failed\<close> nor
  \<^verbatim>\<open>complete\<close>, is answered \<^verbatim>\<open>{'response': False, 'error': msg}\<close>. The answer is the
  same in every environment and on every platform, so no collaborator and no file is
  consulted, and the trace of effects is the one the handler started with.
\<close>

theorem POST_refuses_without_effects:
  assumes "\<not> list_all (\<lambda>k. map_of d k \<noteq> None) [''apikey'', ''mode'', ''guid'', ''path'']
           \<or> dget d ''apikey'' \<noteq> PStr (apikey cfg)
           \<or> (dget d ''mode'' \<noteq> PStr ''failed'' \<and> dget d ''mode'' \<noteq> PStr ''complete'')"
  shows "\<exists>msg. \<forall>osp env. POST osp env cfg d tr = Inr (refusal msg, tr)"
proof (cases "missing_key [''apikey'', ''mode'', ''guid'', ''path''] d")
  case (Some key)
  then show ?thesis by (auto simp: POST_def)
next
  case None
  then have "list_all (\<lambda>k. map_of d k \<noteq> None) [''apikey'', ''mode'', ''guid'', ''path'']"
    by (simp only: missing_key_None)
  then have "dget d ''apikey'' \<noteq> PStr (apikey cfg)
           \<or> (dget d ''mode'' \<noteq> PStr ''failed'' \<and> dget d ''mode'' \<noteq> PStr ''complete'')"
    using assms by blast
  then show ?thesis using None by (auto simp: POST_def)
qed

theorem POST_refuses_without_effects_witness:
  "dget [(''apikey'', PStr ''guess''), (''mode'', PStr ''complete''), (''guid'', PStr ''abc123''),
         (''path'', PStr ''/dl/Heat.1995.mkv'')] ''apikey'' \<noteq> PStr (apikey sample_config)
   \<and> POST posixpath sample_env sample_config
        [(''apikey'', PStr ''guess''), (''mode'', PStr ''complete''), (''guid'', PStr ''abc123''),
         (''path'', PStr ''/dl/Heat.1995.mkv'')] [] = Inr (refusal ''incorrect api key'', [])"
  using POST_refuses_without_effects
    [of "[(''apikey'', PStr ''guess''), (''mode'', PStr ''complete''), (''guid'', PStr ''abc123''),
         (''path'', PStr ''/dl/Heat.1995.mkv'')]" sample_config "[]"]
  by (simp add: dget_def sample_config_def POST_def)

section \<open>Properties of the complete branch\<close>

text \<open>What each step does to the status and to the tasks of the report.\<close>

lemma present_update: "map_of al k \<noteq> None \<Longrightarrow> map_of (AList.update k' v al) k \<noteq> None"
  by (simp add: update_conv)

lemma mark_finished_tasks:
  assumes "mark_finished env g r tr = Inr (r', tr')"
  shows "status r' = status r \<and> data r' = data r \<and> map_of (tasks r') g \<noteq> None
         \<and> (\<forall>k. map_of (tasks r) k \<noteq> None \<longrightarrow> map_of (tasks r') k \<noteq> None)"
  using assms
  by (auto simp: mark_finished_def bindE_def Let_def update_conv split: sum.splits if_splits)

lemma complete_guid_tasks:
  assumes "complete_guid env r tr = Inr (r', tr')"
  shows "status r' = status r \<and> data r' = data r
         \<and> (truthy (dget (data r) ''guid'') \<and> truthy (dget (data r) ''imdbid'')
              \<longrightarrow> map_of (tasks r') (dget (data r) ''guid'') \<noteq> None)
         \<and> (\<forall>k. map_of (tasks r) k \<noteq> None \<longrightarrow> map_of (tasks r') k \<noteq> None)"
  using assms mark_finished_tasks [of env "dget (data r) ''guid''" r tr r' tr']
  by (auto simp: complete_guid_def bindE_def dindex_def dget_def split: option.splits if_splits)

lemma complete_guid2_tasks:
  assumes "complete_guid2 env r tr = Inr (r', tr')"
  shows "status r' = status r \<and> data r' = data r
         \<and> (truthy (dget (data r) ''guid2'') \<and> truthy (dget (data r) ''imdbid'')
              \<longrightarrow> map_of (tasks r') (dget (data r) ''guid2'') \<noteq> None)
         \<and> (\<forall>k. map_of (tasks r) k \<noteq> None \<longrightarrow> map_of (tasks r') k \<noteq> None)"
  using assms mark_finished_tasks [of env "dget (data r) ''guid2''" r tr r' tr']
  by (auto simp: complete_guid2_def split: if_splits)

lemma complete_movie_status_tasks:
  assumes "complete_movie_status env r tr = (r', tr')"
  shows "status r' = status r
         \<and> (\<exists>v. tasks r' = AList.update (PStr ''update_movie_status'') v (tasks r))"
  using assms
  by (auto simp: complete_movie_status_def Let_def set_task_def set_data_def
      split: if_splits prod.splits)

lemma complete_metadata_tasks:
  assumes "complete_metadata env r = Inr r'"
  shows "status r' = status r \<and> tasks r' = tasks r"
  using assms
  by (auto simp: complete_metadata_def Let_def bindE_def set_data_def split: sum.splits)

lemma complete_renamer_tasks:
  assumes "complete_renamer osp env cfg r tr = Inr (r', tr')"
  shows "status r' = status r
         \<and> (if renamerenabled cfg
             then \<exists>b. tasks r' = AList.update (PStr ''renamer'') (entry True (PBool b)) (tasks r)
             else tasks r' = AList.update (PStr ''mover'') disabled_entry (tasks r))"
  using assms
  by (auto simp: complete_renamer_def bindE_def set_task_def set_data_def entry_def
      disabled_entry_def Let_def split: sum.splits if_splits prod.splits)

lemma complete_mover_tasks:
  assumes "complete_mover env cfg r tr = Inr (r', tr')"
  shows "status r' = status r
         \<and> map_of (data r') ''path'' = map_of (data r) ''path''
         \<and> (if moverenabled cfg
             then \<exists>b. tasks r' = AList.update (PStr ''mover'') (entry True (PBool b)) (tasks r)
             else tasks r' = AList.update (PStr ''mover'') disabled_entry (tasks r))"
  using assms
  by (auto simp: complete_mover_def bindE_def set_task_def set_data_def entry_def
      disabled_entry_def Let_def update_conv split: sum.splits if_splits)

lemma complete_steps_tasks:
  assumes "complete_steps osp env cfg d tr = Inr (r6, tr7)"
  shows "status r6 = ''incomplete''
     \<and> (\<exists>ts vs br vm. tasks r6 = AList.update (PStr ''mover'') vm
            (AList.update (if renamerenabled cfg then PStr ''renamer'' else PStr ''mover'')
               (if renamerenabled cfg then entry True (PBool br) else disabled_entry)
               (AList.update (PStr ''update_movie_status'') vs ts))
          \<and> (if moverenabled cfg then \<exists>b. vm = entry True (PBool b) else vm = disabled_entry)
          \<and> (truthy (dget d ''guid'') \<and> truthy (dget d ''imdbid'')
                \<longrightarrow> map_of ts (dget d ''guid'') \<noteq> None))"
proof -
  let ?r0 = "\<lparr>status = ''incomplete'',
              data = AList.update ''finished_date'' (PStr (today env)) d, tasks = []\<rparr>"
  from assms obtain r1 tr1 r2 tr2 r3 tr3 r4 r5 tr5 tr6 where
    s1: "complete_guid env ?r0 tr = Inr (r1, tr1)" and
    s2: "complete_guid2 env r1 tr1 = Inr (r2, tr2)" and
    s3: "complete_movie_status env r2 tr2 = (r3, tr3)" and
    s4: "complete_metadata env r3 = Inr r4" and
    s5: "complete_renamer osp env cfg r4 tr3 = Inr (r5, tr5)" and
    s6: "complete_mover env cfg r5 tr5 = Inr (r6, tr6)"
    by (auto simp: complete_steps_def bindE_def Let_def split: sum.splits prod.splits)
  have g: "dget (data ?r0) ''guid'' = dget d ''guid''" "dget (data ?r0) ''imdbid'' = dget d ''imdbid''"
    by (simp_all add: dget_def update_conv)
  note t1 = complete_guid_tasks [OF s1] and t2 = complete_guid2_tasks [OF s2]
    and t3 = complete_movie_status_tasks [OF s3] and t4 = complete_metadata_tasks [OF s4]
    and t5 = complete_renamer_tasks [OF s5] and t6 = complete_mover_tasks [OF s6]
  have st: "status r6 = ''incomplete''" using t1 t2 t3 t4 t5 t6 by simp
  have pres: "truthy (dget d ''guid'') \<and> truthy (dget d ''imdbid'')
                \<longrightarrow> map_of (tasks r2) (dget d ''guid'') \<noteq> None"
    using t1 t2 g by simp
  obtain vs where vs: "tasks r4 = AList.update (PStr ''update_movie_status'') vs (tasks r2)"
    using t3 t4 by auto
  obtain br where br: "tasks r5 = AList.update (if renamerenabled cfg then PStr ''renamer'' else PStr ''mover'')
               (if renamerenabled cfg then entry True (PBool br) else disabled_entry) (tasks r4)"
    using t5 by (cases "renamerenabled cfg") auto
  obtain vm where vm: "tasks r6 = AList.update (PStr ''mover'') vm (tasks r5)"
    "if moverenabled cfg then \<exists>b. vm = entry True (PBool b) else vm = disabled_entry"
    using t6 by (cases "moverenabled cfg") auto
  have "tasks r6 = AList.update (PStr ''mover'') vm
            (AList.update (if renamerenabled cfg then PStr ''renamer'' else PStr ''mover'')
               (if renamerenabled cfg then entry True (PBool br) else disabled_entry)
               (AList.update (PStr ''update_movie_status'') vs (tasks r2)))"
    using vs br vm(1) by simp
  then show ?thesis using st pres vm(2) by blast
qed

lemma complete_steps_entries:
  assumes "complete_steps osp env cfg d tr = Inr (r6, tr7)"
  shows "status r6 = ''incomplete''"
    and "task r6 ''update_movie_status'' \<noteq> None"
    and "renamerenabled cfg \<Longrightarrow> \<exists>b. task r6 ''renamer'' = Some (entry True (PBool b))"
    and "if moverenabled cfg then \<exists>b. task r6 ''mover'' = Some (entry True (PBool b))
         else task r6 ''mover'' = Some disabled_entry"
    and "truthy (dget d ''guid'') \<Longrightarrow> truthy (dget d ''imdbid'') \<Longrightarrow>
         map_of (tasks r6) (dget d ''guid'') \<noteq> None"
  using complete_steps_tasks [OF assms]
  by (auto simp: task_def update_conv split: if_splits)

lemma mover_response_entry: "task r ''mover'' = Some (entry True v) \<Longrightarrow> mover_response r = Inr v"
  by (simp add: mover_response_def entry_def dindex_def)

lemma complete_cleanup_cases:
  assumes "complete_cleanup env cfg r6 tr7 = Inr (r, tr')" "cleanupenabled cfg"
    "moverenabled cfg \<Longrightarrow> task r6 ''mover'' = Some (entry True (PBool ok))"
  shows "data r = data r6 \<and> (\<exists>vc. tasks r = AList.update (PStr ''cleanup'') (entry True vc) (tasks r6)
     \<and> (if movermethod cfg = ''hardlink'' \<or> movermethod cfg = ''symboliclink''
         then vc = PNone \<and> status r = status r6 \<and> tr' = tr7
         else \<exists>p. map_of (data r6) ''path'' = Some (PStr p)
            \<and> (if isfile env tr7 p then vc = PNone \<and> status r = status r6 \<and> tr' = tr7
                else if moverenabled cfg \<and> ok
                then vc = PBool (fst (cleanup env tr7 p)) \<and> status r = ''finished''
                       \<and> tr' = snd (cleanup env tr7 p)
                else vc = PNone \<and> status r = ''finished'' \<and> tr' = tr7)))"
proof (cases "movermethod cfg = ''hardlink'' \<or> movermethod cfg = ''symboliclink''")
  case True
  then show ?thesis using assms(1,2)
    by (auto simp: complete_cleanup_def set_task_def entry_def)
next
  case False
  from assms(1,2) False obtain pv p where p: "map_of (data r6) ''path'' = Some pv" "pv = PStr p"
    by (cases "map_of (data r6) ''path''"; cases "the (map_of (data r6) ''path'')")
       (auto simp: complete_cleanup_def bindE_def dindex_def)
  show ?thesis
  proof (cases "moverenabled cfg")
    case True
    then have "mover_response r6 = Inr (PBool ok)" using assms(3) mover_response_entry by simp
    then show ?thesis using assms(1,2) False p True
      by (auto simp: complete_cleanup_def bindE_def dindex_def set_task_def entry_def
          split: prod.splits if_splits)
  next
    case nomover: False
    then show ?thesis using assms(1,2) False p
      by (auto simp: complete_cleanup_def bindE_def dindex_def set_task_def entry_def
          split: prod.splits if_splits)
  qed
qed

lemma complete_split:
  assumes "complete osp env cfg d tr = Inr (r, tr')"
  obtains r6 tr7 where "complete_steps osp env cfg d tr = Inr (r6, tr7)"
    "complete_cleanup env cfg r6 tr7 = Inr (r, tr')"
  using assms by (auto simp: complete_def bindE_def split: sum.splits prod.splits)



lemma complete_finished_skip_needs_mover_failure:
  assumes "complete osp env cfg d tr = Inr (r, tr')" "cleanupenabled cfg"
    "task r ''mover'' = Some (entry True (PBool True))"
  shows "\<not> (status r = ''finished'' \<and> task r ''cleanup'' = Some (entry True PNone))"
proof -
  obtain r6 tr7 where s: "complete_steps osp env cfg d tr = Inr (r6, tr7)"
    and c: "complete_cleanup env cfg r6 tr7 = Inr (r, tr')"
    using complete_split [OF assms(1)] by blast
  have inc: "status r6 = ''incomplete''" using complete_steps_entries(1) [OF s] .
  obtain ok where ok: "moverenabled cfg \<Longrightarrow> task r6 ''mover'' = Some (entry True (PBool ok))"
    using complete_steps_entries(4) [OF s] by (cases "moverenabled cfg") auto
  obtain vc where vc: "tasks r = AList.update (PStr ''cleanup'') (entry True vc) (tasks r6)"
    and cases: "if movermethod cfg = ''hardlink'' \<or> movermethod cfg = ''symboliclink''
         then vc = PNone \<and> status r = status r6 \<and> tr' = tr7
         else \<exists>p. map_of (data r6) ''path'' = Some (PStr p)
            \<and> (if isfile env tr7 p then vc = PNone \<and> status r = status r6 \<and> tr' = tr7
                else if moverenabled cfg \<and> ok
                then vc = PBool (fst (cleanup env tr7 p)) \<and> status r = ''finished''
                       \<and> tr' = snd (cleanup env tr7 p)
                else vc = PNone \<and> status r = ''finished'' \<and> tr' = tr7)"
    using complete_cleanup_cases [OF c assms(2) ok] by blast
  have m6: "task r6 ''mover'' = Some (entry True (PBool True))"
    using assms(3) vc by (simp add: task_def update_conv)
  have en: "moverenabled cfg"
    using complete_steps_entries(4) [OF s] m6 by (auto simp: entry_def disabled_entry_def split: if_splits)
  have "ok" using ok [OF en] m6 by (simp add: entry_def)
  have t: "task r ''cleanup'' = Some (entry True vc)"
    using vc by (simp add: task_def update_conv)
  show ?thesis using cases inc t en \<open>ok\<close> by (auto simp: entry_def split: if_splits)
qed











text \<open>
  C1. The claim: for a single-file source with renamer, mover and cleanup enabled and both
  steps succeeding, the report has status \<^verbatim>\<open>finished\<close>, \<^verbatim>\<open>original_file\<close> the path before
  the rename, \<^verbatim>\<open>finished_file\<close> the path after the move, and a cleanup entry skipped with
  response \<^verbatim>\<open>None\<close>. The two file paths are as claimed. The status and the cleanup entry
  are never both as claimed (\<open>complete_finished_skip_needs_mover_failure\<close>): the two
  branches that skip the cleanup for a link method or for a file end with
  \<^verbatim>\<open>return result\<close> before \<^verbatim>\<open>result['status'] = 'finished'\<close>, so the status stays
  \<^verbatim>\<open>incomplete\<close>. Three runs on the file \<^verbatim>\<open>/dl/Heat.1995.mkv\<close>: with the method
  \<^verbatim>\<open>symboliclink\<close> the cleanup is skipped and the status is \<^verbatim>\<open>incomplete\<close>; with the
  default method the file has left its path when the cleanup step looks, so the step is
  not skipped, \<^verbatim>\<open>cleanup\<close> finds nothing to delete and the response is \<^verbatim>\<open>False\<close>; and in a
  world where the path still names a file at that moment the cleanup is skipped and the
  status is \<^verbatim>\<open>incomplete\<close>.
\<close>

theorem complete_single_file_not_finished_and_skipped:
  "(case complete posixpath sample_env (sample_config\<lparr>movermethod := ''symboliclink''\<rparr>)
           (sample_data ''complete'' ''/dl/Heat.1995.mkv'' ''/dl/Heat.1995.mkv'') [] of
      Inr (r, tr') \<Rightarrow>
        status r = ''incomplete''
        \<and> task r ''renamer'' = Some (entry True (PBool True))
        \<and> task r ''mover'' = Some (entry True (PBool True))
        \<and> task r ''cleanup'' = Some (entry True PNone)
        \<and> dget (data r) ''original_file'' = PStr ''/dl/Heat.1995.mkv''
        \<and> dget (data r) ''finished_file'' = PStr ''/movies/Heat (1995).mkv''
    | Inl e \<Rightarrow> False)
   \<and> (case complete posixpath sample_env sample_config
           (sample_data ''complete'' ''/dl/Heat.1995.mkv'' ''/dl/Heat.1995.mkv'') [] of
      Inr (r, tr') \<Rightarrow>
        status r = ''finished''
        \<and> task r ''renamer'' = Some (entry True (PBool True))
        \<and> task r ''mover'' = Some (entry True (PBool True))
        \<and> task r ''cleanup'' = Some (entry True (PBool False))
        \<and> dget (data r) ''original_file'' = PStr ''/dl/Heat.1995.mkv''
        \<and> dget (data r) ''finished_file'' = PStr ''/movies/Heat (1995).mkv''
    | Inl e \<Rightarrow> False)
   \<and> (case complete posixpath (sample_env\<lparr>isfile := (\<lambda>tr p. p = ''/dl/Heat.1995.mkv'')\<rparr>)
           sample_config
           (sample_data ''complete'' ''/dl/Heat.1995.mkv'' ''/dl/Heat.1995.mkv'') [] of
      Inr (r, tr') \<Rightarrow>
        status r = ''incomplete''
        \<and> task r ''mover'' = Some (entry True (PBool True))
        \<and> task r ''cleanup'' = Some (entry True PNone)
    | Inl e \<Rightarrow> False)"
  by code_simp

end
